theory Spec2Isabelle
  imports Complex_Main
begin

section \<open>Data model (types.ts)\<close>

text \<open>
  The program computes with JavaScript numbers. Finite numbers are modelled as
  mathematical reals: \<open>Math.sin\<close>, \<open>Math.cos\<close>, \<open>Math.PI\<close> are \<open>sin\<close>, \<open>cos\<close>, \<open>pi\<close>, and the
  arithmetic is exact. The rounding of the source's doubles is outside the model, so a
  statement below is about the program only where rounding cannot change its truth.
  Counters and counts (\<open>numRoutes\<close>, \<open>variationIndex\<close>, \<open>id\<close>) are integers.
  The default values of the parameters (\<open>count = 2\<close>, \<open>variationIndex = 0\<close>,
  \<open>numRoutes = 3\<close>, \<open>distanceKm = 5\<close>) stand in for an omitted argument; every call in the
  program passes all its arguments, and the functions below take them explicitly.
\<close>

record coordinate =
  lat :: real
  lon :: real

text \<open>
  A number that may be NaN. The program makes NaN out of finite numbers in two places:
  \<open>Math.sqrt\<close> of a negative number, and the division of an absent field of the router's
  answer. NaN then goes through arithmetic, \<open>Math.floor\<close> and \<open>Math.max\<close>, and every
  comparison with it is false.
\<close>

datatype number = Finite real | NaN

text \<open>
  \<open>RouteStep\<close>. The adapter copies \<open>distance\<close> and \<open>duration\<close> from the router's step, where
  they may be absent.
\<close>

record route_step =
  instruction :: string
  step_distance :: "real option"
  step_duration :: "real option"

text \<open>
  \<open>GeneratedRoute\<close>. The optional fields \<open>distance?\<close>, \<open>duration?\<close>, \<open>steps?\<close> are options;
  the field \<open>id\<close> is \<open>id_r\<close>, since \<open>id\<close> is the identity function of HOL.
\<close>

record generated_route =
  id_r :: int
  points :: "coordinate list"
  waypoints :: "coordinate list"
  isLoop :: bool
  distance :: "number option"
  duration :: "number option"
  steps :: "route_step list option"

section \<open>Geo-math utility (routeGenerator.ts)\<close>

text \<open>
  \<open>Math.atan2(y, x)\<close> on reals: the angle of the point \<open>(x, y)\<close> in \<open>(-pi, pi]\<close>.
\<close>

definition atan2 :: "real \<Rightarrow> real \<Rightarrow> real" where
  "atan2 y x =
     (if 0 < x then arctan (y / x)
      else if x < 0 then (if 0 \<le> y then arctan (y / x) + pi else arctan (y / x) - pi)
      else if 0 < y then pi / 2
      else if y < 0 then - (pi / 2)
      else 0)"

text \<open>\<open>Math.sqrt\<close>: NaN on a negative number.\<close>

definition Math_sqrt :: "real \<Rightarrow> number" where
  "Math_sqrt x = (if x < 0 then NaN else Finite (sqrt x))"

text \<open>
  \<open>calculateDistance\<close>. When one of the two square roots is NaN, so are \<open>c\<close> and the result.
  In exact arithmetic the term \<open>a\<close> stays in \<open>[0, 1]\<close>; the source's doubles can round it
  above \<open>1\<close> (for antipodal points), and then the source returns NaN where this definition
  returns a number.
\<close>

definition calculateDistance :: "coordinate \<Rightarrow> coordinate \<Rightarrow> number" where
  "calculateDistance coord1 coord2 =
     (let R = 6371;
          dLat = ((lat coord2 - lat coord1) * pi) / 180;
          dLon = ((lon coord2 - lon coord1) * pi) / 180;
          a = sin (dLat / 2) * sin (dLat / 2) +
              cos ((lat coord1 * pi) / 180) *
                cos ((lat coord2 * pi) / 180) *
                sin (dLon / 2) *
                sin (dLon / 2)
      in case Math_sqrt a of
           NaN \<Rightarrow> NaN
         | Finite y \<Rightarrow>
             (case Math_sqrt (1 - a) of
                NaN \<Rightarrow> NaN
              | Finite x \<Rightarrow> Finite (R * (2 * atan2 y x))))"

text \<open>\<open>total += d\<close> on numbers that may be NaN.\<close>

definition add_number :: "number \<Rightarrow> number \<Rightarrow> number" where
  "add_number x y =
     (case x of NaN \<Rightarrow> NaN
      | Finite a \<Rightarrow> (case y of NaN \<Rightarrow> NaN | Finite b \<Rightarrow> Finite (a + b)))"

text \<open>The comparison \<open>x === y\<close> of two numbers: false when one of them is NaN.\<close>

definition strict_equal :: "number \<Rightarrow> number \<Rightarrow> bool" where
  "strict_equal x y =
     (case x of NaN \<Rightarrow> False
      | Finite a \<Rightarrow> (case y of NaN \<Rightarrow> False | Finite b \<Rightarrow> a = b))"

text \<open>
  The loop of \<open>calculateRouteDistance\<close>: \<open>i\<close> runs while \<open>i < points.length - 1\<close>, so both
  reads \<open>points[i]\<close> and \<open>points[i + 1]\<close> are in range.
\<close>

function calculateRouteDistance_loop :: "coordinate list \<Rightarrow> nat \<Rightarrow> number \<Rightarrow> number" where
  "calculateRouteDistance_loop pts i total_km =
     (if int i < int (length pts) - 1
      then calculateRouteDistance_loop pts (Suc i)
             (add_number total_km (calculateDistance (pts ! i) (pts ! (i + 1))))
      else total_km)"
  by pat_completeness auto
termination
  by (relation "measure (\<lambda>(pts, i, total_km). length pts - i)") auto

definition calculateRouteDistance :: "coordinate list \<Rightarrow> number" where
  "calculateRouteDistance pts = calculateRouteDistance_loop pts 0 (Finite 0)"

section \<open>Randomness\<close>

text \<open>
  \<open>Math.random()\<close> is unseeded. The generator is an explicit state: the infinite sequence
  of the draws still to come. A draw returns the head and leaves the tail. Every theorem
  below holds for every such sequence; where the range of \<open>Math.random()\<close> matters, the
  sequence is assumed to lie in \<open>[0, 1)\<close>.
\<close>

type_synonym rng = "nat \<Rightarrow> real"

definition random :: "rng \<Rightarrow> real \<times> rng" where
  "random g = (g 0, (\<lambda>n. g (Suc n)))"

definition unit_draws :: "rng \<Rightarrow> bool" where
  "unit_draws g = (\<forall>n. 0 \<le> g n \<and> g n < 1)"

section \<open>Waypoint synthesizer\<close>

text \<open>
  One iteration of the body of \<open>generateRandomWaypoints\<close>: four draws, in the order in
  which the source evaluates them (\<open>lat\<close>, \<open>lon\<close>, then the two offsets of the pushed
  object, left to right).
\<close>

definition randomWaypoint :: "coordinate \<Rightarrow> coordinate \<Rightarrow> rng \<Rightarrow> coordinate \<times> rng" where
  "randomWaypoint start endc g =
     (let (r1, g1) = random g;
          lat0 = lat start + r1 * (lat endc - lat start);
          (r2, g2) = random g1;
          lon0 = lon start + r2 * (lon endc - lon start);
          randomOffset = 0.01;
          (r3, g3) = random g2;
          (r4, g4) = random g3
      in (\<lparr>lat = lat0 + (r3 - 0.5) * randomOffset,
           lon = lon0 + (r4 - 0.5) * randomOffset\<rparr>, g4))"

text \<open>
  The count that \<open>generateRandomWaypoints\<close> receives is an integer or NaN (\<open>None\<close>); the loop
  test \<open>i < count\<close> is false for NaN.
\<close>

definition less_count :: "nat \<Rightarrow> int option \<Rightarrow> bool" where
  "less_count i count = (case count of None \<Rightarrow> False | Some c \<Rightarrow> int i < c)"

function generateRandomWaypoints_loop ::
  "coordinate \<Rightarrow> coordinate \<Rightarrow> int option \<Rightarrow> nat \<Rightarrow> coordinate list \<Rightarrow> rng
     \<Rightarrow> coordinate list \<times> rng" where
  "generateRandomWaypoints_loop start endc count i wps g =
     (if less_count i count
      then generateRandomWaypoints_loop start endc count (Suc i)
             (wps @ [fst (randomWaypoint start endc g)]) (snd (randomWaypoint start endc g))
      else (wps, g))"
  by pat_completeness auto
termination
  by (relation "measure (\<lambda>(start, endc, count, i, wps, g).
                            (case count of None \<Rightarrow> 0 | Some c \<Rightarrow> nat c) - i)")
     (auto simp: less_count_def split: option.splits)

definition generateRandomWaypoints ::
  "coordinate \<Rightarrow> coordinate \<Rightarrow> int option \<Rightarrow> rng \<Rightarrow> coordinate list \<times> rng" where
  "generateRandomWaypoints start endc count g =
     generateRandomWaypoints_loop start endc count 0 [] g"

text \<open>
  One iteration of the body of \<open>generateLoopWaypoints\<close>: the angle draw, then the radius
  draw.
\<close>

definition loopWaypoint ::
  "coordinate \<Rightarrow> real \<Rightarrow> real \<Rightarrow> real \<Rightarrow> real \<Rightarrow> int \<Rightarrow> nat \<Rightarrow> rng \<Rightarrow> coordinate \<times> rng" where
  "loopWaypoint start baseRadius latPerKm lonPerKm primaryDirection numWaypoints i g =
     (let baseAngle = (real i / real_of_int numWaypoints) * 2 * pi + primaryDirection;
          (r1, g1) = random g;
          angleVariation = (r1 - 0.5) * 0.3;
          angle = baseAngle + angleVariation;
          (r2, g2) = random g1;
          radiusVariation = 0.8 + r2 * 0.4;
          radius = baseRadius * radiusVariation
      in (\<lparr>lat = lat start + sin angle * radius * latPerKm,
           lon = lon start + cos angle * radius * lonPerKm\<rparr>, g2))"

function generateLoopWaypoints_loop ::
  "coordinate \<Rightarrow> real \<Rightarrow> real \<Rightarrow> real \<Rightarrow> real \<Rightarrow> int \<Rightarrow> nat \<Rightarrow> coordinate list \<Rightarrow> rng
     \<Rightarrow> coordinate list \<times> rng" where
  "generateLoopWaypoints_loop start baseRadius latPerKm lonPerKm primaryDirection numWaypoints i wps g =
     (if int i < numWaypoints
      then generateLoopWaypoints_loop start baseRadius latPerKm lonPerKm primaryDirection
             numWaypoints (Suc i)
             (wps @ [fst (loopWaypoint start baseRadius latPerKm lonPerKm primaryDirection
                            numWaypoints i g)])
             (snd (loopWaypoint start baseRadius latPerKm lonPerKm primaryDirection
                            numWaypoints i g))
      else (wps, g))"
  by pat_completeness auto
termination
  by (relation "measure (\<lambda>(start, baseRadius, latPerKm, lonPerKm, primaryDirection,
                            numWaypoints, i, wps, g). nat numWaypoints - i)") auto

text \<open>
  \<open>lonPerKm\<close> divides by \<open>cos(start.lat * pi / 180)\<close>. At a pole that cosine is \<open>0\<close>, the
  source's division gives an infinity, and HOL's gives \<open>0\<close>: a theorem that depends on the
  value of \<open>lonPerKm\<close> assumes that the cosine is not \<open>0\<close>.
\<close>

definition generateLoopWaypoints ::
  "coordinate \<Rightarrow> real \<Rightarrow> int \<Rightarrow> rng \<Rightarrow> coordinate list \<times> rng" where
  "generateLoopWaypoints start targetDistanceKm variationIndex g =
     (let numWaypoints = max 3 (min 5 (3 + variationIndex));
          baseRadius = targetDistanceKm / (2 * pi) * 1.5;
          latPerKm = 1 / 111;
          lonPerKm = 1 / (111 * cos ((lat start * pi) / 180));
          primaryDirection = (real_of_int variationIndex * (2 * pi)) / 3
      in generateLoopWaypoints_loop start baseRadius latPerKm lonPerKm primaryDirection
           numWaypoints 0 [] g)"

section \<open>Route assembler\<close>

text \<open>
  One iteration of the loop of \<open>generateRoutes\<close>; \<open>endc\<close> is \<open>None\<close> when the caller gave
  no end coordinate, and then \<open>isLoop = !end\<close> is true. In the other branch a NaN
  \<open>directDistance\<close> makes \<open>extraDistance\<close> NaN, and \<open>Math.max(1, Math.floor(NaN))\<close> is NaN.
\<close>

definition generateRoute ::
  "coordinate \<Rightarrow> coordinate option \<Rightarrow> real \<Rightarrow> nat \<Rightarrow> rng \<Rightarrow> generated_route \<times> rng" where
  "generateRoute start endc distanceKm i g =
     (case endc of
        None \<Rightarrow>
          (let (wps, g') = generateLoopWaypoints start distanceKm (int i) g;
               pts = [start] @ wps @ [start]
           in (\<lparr>id_r = int i, points = pts, waypoints = wps, isLoop = True,
                distance = Some (calculateRouteDistance pts), duration = None,
                steps = None\<rparr>, g'))
      | Some e \<Rightarrow>
          (let directDistance = calculateDistance start e;
               extraDistance = (case directDistance of
                                  NaN \<Rightarrow> NaN
                                | Finite dd \<Rightarrow> Finite (distanceKm - dd));
               waypointCount = (case extraDistance of
                                  NaN \<Rightarrow> None
                                | Finite x \<Rightarrow> Some (max 1 \<lfloor>x / 2\<rfloor>));
               (wps, g') = generateRandomWaypoints start e waypointCount g;
               pts = [start] @ wps @ [e]
           in (\<lparr>id_r = int i, points = pts, waypoints = wps, isLoop = False,
                distance = Some (calculateRouteDistance pts), duration = None,
                steps = None\<rparr>, g')))"

function generateRoutes_loop ::
  "coordinate \<Rightarrow> coordinate option \<Rightarrow> int \<Rightarrow> real \<Rightarrow> nat \<Rightarrow> generated_route list \<Rightarrow> rng
     \<Rightarrow> generated_route list \<times> rng" where
  "generateRoutes_loop start endc numRoutes distanceKm i routes g =
     (if int i < numRoutes
      then generateRoutes_loop start endc numRoutes distanceKm (Suc i)
             (routes @ [fst (generateRoute start endc distanceKm i g)])
             (snd (generateRoute start endc distanceKm i g))
      else (routes, g))"
  by pat_completeness auto
termination
  by (relation "measure (\<lambda>(start, endc, numRoutes, distanceKm, i, routes, g).
                            nat numRoutes - i)") auto

definition generateRoutes ::
  "coordinate \<Rightarrow> coordinate option \<Rightarrow> int \<Rightarrow> real \<Rightarrow> rng \<Rightarrow> generated_route list \<times> rng" where
  "generateRoutes start endc numRoutes distanceKm g =
     generateRoutes_loop start endc numRoutes distanceKm 0 [] g"

section \<open>Road-routing adapter\<close>

text \<open>
  The JSON answer of the external router, as \<open>getRoutedPaths\<close> reads it. Every field that
  the source reads may be absent; a field that is there has the type the router
  documents. Where the source guards the absence (\<open>data.routes\<close>, \<open>osrmRoute.legs\<close>,
  \<open>leg.steps\<close>, \<open>step.maneuver?.instruction\<close>, \<open>step.name\<close>) it takes the guarded branch.
  Where it does not: reading \<open>osrmRoute.geometry.coordinates.map\<close> throws a TypeError when
  the geometry or its coordinates are absent (\<open>geometry_coordinates = None\<close>); an absent
  \<open>distance\<close> or \<open>duration\<close> is \<open>undefined\<close>, and its quotient is NaN.
  A geometry coordinate is the pair \<open>[lon, lat]\<close>.
\<close>

record osrm_step =
  maneuver_instruction :: "string option"
  step_name :: "string option"
  osrm_step_distance :: "real option"
  osrm_step_duration :: "real option"

record osrm_leg =
  leg_steps :: "osrm_step list option"

record osrm_route =
  geometry_coordinates :: "(real \<times> real) list option"
  osrm_distance :: "real option"
  osrm_duration :: "real option"
  legs :: "osrm_leg list option"

record osrm_data =
  code :: string
  routes :: "osrm_route list option"

text \<open>
  What one \<open>await fetch(url)\<close> followed by \<open>await response.json()\<close> does: it throws (a
  network or a parse error), or it returns the parsed data.
\<close>

datatype fetch_outcome = Threw | Returned osrm_data

text \<open>
  The external service: the outcome of the \<open>k\<close>-th call of a run, for the profile and the
  coordinates that the URL carries. Nothing is assumed about it.
\<close>

type_synonym router = "nat \<Rightarrow> string \<Rightarrow> coordinate list \<Rightarrow> fetch_outcome"

definition osrmProfile :: "string \<Rightarrow> string" where
  "osrmProfile mode =
     (if mode = ''car'' then ''driving'' else if mode = ''bike'' then ''cycling'' else ''foot'')"

text \<open>
  \<open>step.maneuver?.instruction || `Continue on ${step.name || 'road'}`\<close>: the empty string
  is falsy, like an absent one.
\<close>

definition stepInstruction :: "osrm_step \<Rightarrow> string" where
  "stepInstruction st =
     (case maneuver_instruction st of
        Some s \<Rightarrow> if s \<noteq> [] then s
                  else ''Continue on '' @
                    (case step_name st of Some n \<Rightarrow> if n \<noteq> [] then n else ''road''
                                        | None \<Rightarrow> ''road'')
      | None \<Rightarrow> ''Continue on '' @
                    (case step_name st of Some n \<Rightarrow> if n \<noteq> [] then n else ''road''
                                        | None \<Rightarrow> ''road''))"

definition convertStep :: "osrm_step \<Rightarrow> route_step" where
  "convertStep st = \<lparr>instruction = stepInstruction st,
                      step_distance = osrm_step_distance st,
                      step_duration = osrm_step_duration st\<rparr>"

fun extractSteps_legs :: "osrm_leg list \<Rightarrow> route_step list \<Rightarrow> route_step list" where
  "extractSteps_legs [] acc = acc"
| "extractSteps_legs (leg # rest) acc =
     (case leg_steps leg of
        Some sts \<Rightarrow> extractSteps_legs rest (acc @ map convertStep sts)
      | None \<Rightarrow> extractSteps_legs rest acc)"

definition extractSteps :: "osrm_route \<Rightarrow> route_step list" where
  "extractSteps osrmRoute =
     (case legs osrmRoute of Some ls \<Rightarrow> extractSteps_legs ls [] | None \<Rightarrow> [])"

text \<open>\<open>value / divisor\<close> for a field of the answer: NaN when the field is absent.\<close>

definition quotient :: "real option \<Rightarrow> real \<Rightarrow> number" where
  "quotient v divisor = (case v of None \<Rightarrow> NaN | Some x \<Rightarrow> Finite (x / divisor))"

text \<open>
  The body of the loop of \<open>getRoutedPaths\<close> after the call: the \<open>try\<close> block on a returned
  answer, the \<open>catch\<close> block on a thrown one. \<open>firstRoute\<close> is
  \<open>data.routes && data.routes[0]\<close>. With status \<open>Ok\<close> and a first route, the first read is
  the geometry's: when it throws, control goes to the \<open>catch\<close> block, which pushes the
  route as it came.
\<close>

definition firstRoute :: "osrm_data \<Rightarrow> osrm_route option" where
  "firstRoute d = (case routes d of Some (osrmRoute # _) \<Rightarrow> Some osrmRoute | _ \<Rightarrow> None)"

definition routedRoute :: "generated_route \<Rightarrow> fetch_outcome \<Rightarrow> generated_route" where
  "routedRoute route outcome =
     (case outcome of
        Threw \<Rightarrow> route
      | Returned d \<Rightarrow>
          (if code d = ''Ok''
           then (case firstRoute d of
                   Some osrmRoute \<Rightarrow>
                     (case geometry_coordinates osrmRoute of
                        None \<Rightarrow> route
                      | Some coordinates \<Rightarrow>
                          route\<lparr>points := map (\<lambda>coord. \<lparr>lat = snd coord, lon = fst coord\<rparr>)
                                              coordinates,
                                distance := Some (quotient (osrm_distance osrmRoute) 1000),
                                duration := Some (quotient (osrm_duration osrmRoute) 60),
                                steps := Some (extractSteps osrmRoute)\<rparr>)
                 | None \<Rightarrow> route)
           else route))"

text \<open>
  The loop \<open>for (const route of routes)\<close>. The calls are made one after the other; \<open>k\<close>
  counts them, and \<open>sent\<close> records what was requested.
\<close>

fun getRoutedPaths_loop ::
  "router \<Rightarrow> string \<Rightarrow> generated_route list \<Rightarrow> nat \<Rightarrow> generated_route list
     \<Rightarrow> (string \<times> coordinate list) list
     \<Rightarrow> generated_route list \<times> (string \<times> coordinate list) list" where
  "getRoutedPaths_loop rt profile [] k routedRoutes sent = (routedRoutes, sent)"
| "getRoutedPaths_loop rt profile (route # rest) k routedRoutes sent =
     getRoutedPaths_loop rt profile rest (Suc k)
       (routedRoutes @ [routedRoute route (rt k profile (points route))])
       (sent @ [(profile, points route)])"

definition getRoutedPaths ::
  "router \<Rightarrow> generated_route list \<Rightarrow> string
     \<Rightarrow> generated_route list \<times> (string \<times> coordinate list) list" where
  "getRoutedPaths rt rs mode = getRoutedPaths_loop rt (osrmProfile mode) rs 0 [] []"

text \<open>
  The external call of a route failed: it threw, the status is not \<open>Ok\<close>, or there is no
  first route.
\<close>

definition call_failed :: "fetch_outcome \<Rightarrow> bool" where
  "call_failed outcome =
     (case outcome of
        Threw \<Rightarrow> True
      | Returned d \<Rightarrow> code d \<noteq> ''Ok'' \<or> routes d = None \<or> routes d = Some [])"

section \<open>Request handler\<close>

text \<open>
  The body of a request, as the handler destructures it. \<open>start\<close> may be missing, and so
  may each of its two fields; the other fields have defaults.
\<close>

record request_coordinate =
  req_lat :: "real option"
  req_lon :: "real option"

record route_request =
  req_start :: "request_coordinate option"
  req_end :: "coordinate option"
  req_mode :: "string option"
  req_numRoutes :: "int option"
  req_distanceKm :: "real option"

record route_response =
  resp_routes :: "generated_route list"
  resp_mode :: string

datatype http_response =
    Status200 route_response
  | Status400 string
  | Status500 string

text \<open>
  A JavaScript value that is a number or absent is falsy when it is absent or \<open>0\<close>.
\<close>

definition falsy :: "real option \<Rightarrow> bool" where
  "falsy v = (case v of None \<Rightarrow> True | Some x \<Rightarrow> x = 0)"

text \<open>
  The check \<open>!start?.lat || !start?.lon\<close>: \<open>None\<close> when it rejects, that is when \<open>start\<close> is
  absent or one of its fields is falsy; otherwise both numbers are there and it gives the
  coordinate that the handler passes on.
\<close>

definition checked_start :: "request_coordinate option \<Rightarrow> coordinate option" where
  "checked_start s =
     (case s of
        None \<Rightarrow> None
      | Some c \<Rightarrow>
          (case req_lat c of
             None \<Rightarrow> None
           | Some la \<Rightarrow>
               if falsy (Some la) then None
               else (case req_lon c of
                       None \<Rightarrow> None
                     | Some lo \<Rightarrow>
                         if falsy (Some lo) then None else Some \<lparr>lat = la, lon = lo\<rparr>)))"

text \<open>
  The handler of \<open>POST /api/route\<close>. It returns the answer, the generator it leaves and
  the list of the requests it sent to the router. Nothing in the model throws out of
  \<open>generateRoutes\<close> or \<open>getRoutedPaths\<close>, so the \<open>catch\<close> branch (status 500) is never
  taken here.
\<close>

definition handle_route ::
  "router \<Rightarrow> route_request \<Rightarrow> rng
     \<Rightarrow> http_response \<times> rng \<times> (string \<times> coordinate list) list" where
  "handle_route rt req g =
     (let mode = (case req_mode req of Some m \<Rightarrow> m | None \<Rightarrow> ''walk'');
          numRoutes = (case req_numRoutes req of Some n \<Rightarrow> n | None \<Rightarrow> 3);
          distanceKm = (case req_distanceKm req of Some d \<Rightarrow> d | None \<Rightarrow> 5)
      in case checked_start (req_start req) of
           None \<Rightarrow> (Status400 ''Start location with lat/lon required'', g, [])
         | Some start \<Rightarrow>
             (let (rs, g') = generateRoutes start (req_end req) numRoutes distanceKm g;
                  (routedRoutes, sent) = getRoutedPaths rt rs mode
              in (Status200 \<lparr>resp_routes = routedRoutes, resp_mode = mode\<rparr>, g', sent)))"

section \<open>Concrete inputs\<close>

text \<open>
  The inputs at which the theorems below are instantiated: the start of the documented
  loop scenario; a generator whose every draw is one half; a generator that draws
  \<open>0, 0, 1/2, 1/2\<close> again and again, and one that draws \<open>0, 0, 3/4, 3/4\<close>; a router that
  throws at its second call and answers the others with one road route; a router whose
  answers have status \<open>Ok\<close> and a first route without geometry; straight-line routes; a
  request whose start has latitude \<open>0\<close>.
\<close>

definition scenario_start :: coordinate where
  "scenario_start = \<lparr>lat = 59.33, lon = 18.06\<rparr>"

definition half_draws :: rng where
  "half_draws n = 1 / 2"

definition coincident_draws :: rng where
  "coincident_draws n = (if n mod 4 < 2 then 0 else 1 / 2)"

definition end_draws :: rng where
  "end_draws n = (if n mod 4 < 2 then 0 else 3 / 4)"

definition road_answer :: osrm_route where
  "road_answer = \<lparr>geometry_coordinates = Some [(18.06, 59.33), (18.07, 59.34)],
                   osrm_distance = Some 4200, osrm_duration = Some 3000, legs = None\<rparr>"



definition flaky_router :: router where
  "flaky_router k profile pts =
     (if k = 1 then Threw else Returned \<lparr>code = ''Ok'', routes = Some [road_answer]\<rparr>)"

definition straight_route :: "int \<Rightarrow> generated_route" where
  "straight_route i = \<lparr>id_r = i, points = [scenario_start, scenario_start], waypoints = [],
                        isLoop = True, distance = Some (Finite 0), duration = None,
                        steps = None\<rparr>"

definition equator_request :: route_request where
  "equator_request = \<lparr>req_start = Some \<lparr>req_lat = Some 0, req_lon = Some 18.06\<rparr>,
                       req_end = None, req_mode = None, req_numRoutes = None,
                       req_distanceKm = None\<rparr>"

section \<open>Loop invariants\<close>

text \<open>
  Each of the three counting loops appends one element per iteration and threads the
  generator. Whatever one iteration guarantees (\<open>P\<close>, for every generator that satisfies
  \<open>Q\<close>) holds of every element of the result, and the result has \<open>max i n\<close> elements.
\<close>

lemma generateLoopWaypoints_loop_inv:
  "(\<forall>k g'. Q g' \<longrightarrow> P k (fst (loopWaypoint s bR la lo pD nW k g')) \<and>
                       Q (snd (loopWaypoint s bR la lo pD nW k g')))
     \<Longrightarrow> Q g \<Longrightarrow> length wps = i \<Longrightarrow> (\<forall>j<i. P j (wps ! j)) \<Longrightarrow>
     length (fst (generateLoopWaypoints_loop s bR la lo pD nW i wps g)) = max i (nat nW) \<and>
     (\<forall>j < max i (nat nW). P j (fst (generateLoopWaypoints_loop s bR la lo pD nW i wps g) ! j)) \<and>
     Q (snd (generateLoopWaypoints_loop s bR la lo pD nW i wps g))"
proof (induction s bR la lo pD nW i wps g rule: generateLoopWaypoints_loop.induct)
  case (1 start baseRadius latPerKm lonPerKm primaryDirection numWaypoints i wps g)
  note step = "1.prems"(1)
  show ?case
  proof (cases "int i < numWaypoints")
    case True
    let ?w = "fst (loopWaypoint start baseRadius latPerKm lonPerKm primaryDirection numWaypoints i g)"
    let ?g = "snd (loopWaypoint start baseRadius latPerKm lonPerKm primaryDirection numWaypoints i g)"
    have a: "Q ?g" and b: "P i ?w" using step "1.prems"(2) by auto
    have c: "length (wps @ [?w]) = Suc i" using "1.prems" by simp
    have d: "\<forall>j<Suc i. P j ((wps @ [?w]) ! j)"
      using "1.prems" b by (auto simp: nth_append less_Suc_eq)
    have m: "max (Suc i) (nat numWaypoints) = max i (nat numWaypoints)" using True by linarith
    from "1.IH"[OF True step a c d] m True show ?thesis
      by (subst (1 2 3) generateLoopWaypoints_loop.simps) simp
  next
    case False
    then have m: "max i (nat numWaypoints) = i" by linarith
    from False "1.prems" m show ?thesis
      by (subst (1 2 3) generateLoopWaypoints_loop.simps) simp
  qed
qed

lemma generateRandomWaypoints_loop_inv:
  "(\<forall>g'. Q g' \<longrightarrow> P (fst (randomWaypoint s e g')) \<and> Q (snd (randomWaypoint s e g')))
     \<Longrightarrow> Q g \<Longrightarrow> length wps = i \<Longrightarrow> (\<forall>j<i. P (wps ! j)) \<Longrightarrow>
     length (fst (generateRandomWaypoints_loop s e n i wps g)) =
       max i (case n of None \<Rightarrow> 0 | Some c \<Rightarrow> nat c) \<and>
     (\<forall>j < max i (case n of None \<Rightarrow> 0 | Some c \<Rightarrow> nat c).
        P (fst (generateRandomWaypoints_loop s e n i wps g) ! j)) \<and>
     Q (snd (generateRandomWaypoints_loop s e n i wps g))"
proof (induction s e n i wps g rule: generateRandomWaypoints_loop.induct)
  case (1 start endc count i wps g)
  note step = "1.prems"(1)
  show ?case
  proof (cases "less_count i count")
    case True
    let ?n = "case count of None \<Rightarrow> 0 | Some c \<Rightarrow> nat c"
    let ?w = "fst (randomWaypoint start endc g)"
    let ?g = "snd (randomWaypoint start endc g)"
    have a: "Q ?g" and b: "P ?w" using step "1.prems"(2) by auto
    have c: "length (wps @ [?w]) = Suc i" using "1.prems" by simp
    have d: "\<forall>j<Suc i. P ((wps @ [?w]) ! j)"
      using "1.prems" b by (auto simp: nth_append less_Suc_eq)
    have m: "max (Suc i) ?n = max i ?n"
      using True by (auto simp: less_count_def split: option.splits)
    from "1.IH"[OF True step a c d] m True show ?thesis
      by (subst (1 2 3) generateRandomWaypoints_loop.simps) simp
  next
    case False
    let ?n = "case count of None \<Rightarrow> 0 | Some c \<Rightarrow> nat c"
    from False have m: "max i ?n = i"
      by (auto simp: less_count_def split: option.splits)
    from False "1.prems" m show ?thesis
      by (subst (1 2 3) generateRandomWaypoints_loop.simps) simp
  qed
qed

lemma generateRoutes_loop_inv:
  "(\<forall>k g'. Q g' \<longrightarrow> P k (fst (generateRoute s e d k g')) \<and> Q (snd (generateRoute s e d k g')))
     \<Longrightarrow> Q g \<Longrightarrow> length rs = i \<Longrightarrow> (\<forall>j<i. P j (rs ! j)) \<Longrightarrow>
     length (fst (generateRoutes_loop s e n d i rs g)) = max i (nat n) \<and>
     (\<forall>j < max i (nat n). P j (fst (generateRoutes_loop s e n d i rs g) ! j)) \<and>
     Q (snd (generateRoutes_loop s e n d i rs g))"
proof (induction s e n d i rs g rule: generateRoutes_loop.induct)
  case (1 start endc numRoutes distanceKm i routes g)
  note step = "1.prems"(1)
  show ?case
  proof (cases "int i < numRoutes")
    case True
    let ?r = "fst (generateRoute start endc distanceKm i g)"
    let ?g = "snd (generateRoute start endc distanceKm i g)"
    have a: "Q ?g" and b: "P i ?r" using step "1.prems"(2) by auto
    have c: "length (routes @ [?r]) = Suc i" using "1.prems" by simp
    have d: "\<forall>j<Suc i. P j ((routes @ [?r]) ! j)"
      using "1.prems" b by (auto simp: nth_append less_Suc_eq)
    have m: "max (Suc i) (nat numRoutes) = max i (nat numRoutes)" using True by linarith
    from "1.IH"[OF True step a c d] m True show ?thesis
      by (subst (1 2 3) generateRoutes_loop.simps) simp
  next
    case False
    then have m: "max i (nat numRoutes) = i" by linarith
    from False "1.prems" m show ?thesis
      by (subst (1 2 3) generateRoutes_loop.simps) simp
  qed
qed

text \<open>The same facts for the three entry points, which start the loops at \<open>0\<close>.\<close>

lemma generateRoutes_nth:
  assumes step: "\<And>k g'. Q g' \<Longrightarrow> P k (fst (generateRoute s e d k g')) \<and> Q (snd (generateRoute s e d k g'))"
    and g: "Q g"
  shows "length (fst (generateRoutes s e n d g)) = nat n"
    and "\<And>k. k < nat n \<Longrightarrow> P k (fst (generateRoutes s e n d g) ! k)"
    and "Q (snd (generateRoutes s e n d g))"
  using generateRoutes_loop_inv[where P = P and Q = Q and s = s and e = e and d = d
          and g = g and rs = "[]" and i = 0 and n = n] step g
  unfolding generateRoutes_def by auto

lemma generateLoopWaypoints_nth:
  assumes step: "\<And>k g'. Q g' \<Longrightarrow>
      P k (fst (loopWaypoint s (d / (2 * pi) * 1.5) (1 / 111) (1 / (111 * cos ((lat s * pi) / 180)))
                 ((real_of_int v * (2 * pi)) / 3) (max 3 (min 5 (3 + v))) k g')) \<and>
      Q (snd (loopWaypoint s (d / (2 * pi) * 1.5) (1 / 111) (1 / (111 * cos ((lat s * pi) / 180)))
                 ((real_of_int v * (2 * pi)) / 3) (max 3 (min 5 (3 + v))) k g'))"
    and g: "Q g"
  shows "length (fst (generateLoopWaypoints s d v g)) = nat (max 3 (min 5 (3 + v)))"
    and "\<And>k. k < nat (max 3 (min 5 (3 + v))) \<Longrightarrow> P k (fst (generateLoopWaypoints s d v g) ! k)"
    and "Q (snd (generateLoopWaypoints s d v g))"
  using generateLoopWaypoints_loop_inv[where P = P and Q = Q and s = s 
          and g = g and wps = "[]" and i = 0 and nW = "max 3 (min 5 (3 + v))"
          and bR = "d / (2 * pi) * 1.5" and la = "1/111" and lo = "1 / (111 * cos ((lat s * pi) / 180))"
          and pD = "(real_of_int v * (2 * pi)) / 3"] step g
  unfolding generateLoopWaypoints_def Let_def by auto

lemma generateRandomWaypoints_nth:
  assumes step: "\<And>g'. Q g' \<Longrightarrow> P (fst (randomWaypoint s e g')) \<and> Q (snd (randomWaypoint s e g'))"
    and g: "Q g"
  shows "length (fst (generateRandomWaypoints s e n g)) =
           (case n of None \<Rightarrow> 0 | Some c \<Rightarrow> nat c)"
    and "\<And>k. k < (case n of None \<Rightarrow> 0 | Some c \<Rightarrow> nat c) \<Longrightarrow>
           P (fst (generateRandomWaypoints s e n g) ! k)"
    and "Q (snd (generateRandomWaypoints s e n g))"
  using generateRandomWaypoints_loop_inv[where P = P and Q = Q and s = s and e = e
          and g = g and wps = "[]" and i = 0 and n = n] step g
  unfolding generateRandomWaypoints_def by auto

lemma generateRoute_fields:
  "id_r (fst (generateRoute s e d k g)) = int k"
  "isLoop (fst (generateRoute s e d k g)) = (e = None)"
  "duration (fst (generateRoute s e d k g)) = None"
  "steps (fst (generateRoute s e d k g)) = None"
  by (simp_all add: generateRoute_def Let_def split: option.splits prod.splits)

lemma generateRoute_loop:
  "waypoints (fst (generateRoute s None d k g)) = fst (generateLoopWaypoints s d (int k) g)"
  "points (fst (generateRoute s None d k g)) =
     [s] @ fst (generateLoopWaypoints s d (int k) g) @ [s]"
  by (simp_all add: generateRoute_def Let_def split: prod.splits)

lemma generateRoute_p2p:
  "waypoints (fst (generateRoute s (Some e) d k g)) =
     fst (generateRandomWaypoints s e
            (case calculateDistance s e of
               NaN \<Rightarrow> None | Finite dd \<Rightarrow> Some (max 1 \<lfloor>(d - dd) / 2\<rfloor>)) g)"
  "points (fst (generateRoute s (Some e) d k g)) =
     [s] @ waypoints (fst (generateRoute s (Some e) d k g)) @ [e]"
  by (auto simp: generateRoute_def Let_def split: prod.splits number.splits)

lemma generateLoopWaypoints_length:
  "length (fst (generateLoopWaypoints s d v g)) = nat (max 3 (min 5 (3 + v)))"
  by (rule generateLoopWaypoints_nth(1)[where Q = "\<lambda>_. True" and P = "\<lambda>_ _. True"]) simp_all

lemma generateRandomWaypoints_length:
  "length (fst (generateRandomWaypoints s e n g)) = (case n of None \<Rightarrow> 0 | Some c \<Rightarrow> nat c)"
  by (rule generateRandomWaypoints_nth(1)[where Q = "\<lambda>_. True" and P = "\<lambda>_. True"]) simp_all

section \<open>Geo-math utility: exact arithmetic and symmetry\<close>

text \<open>
  In exact arithmetic the haversine term lies in \<open>[0, 1]\<close>, so the definition of
  \<open>calculateDistance\<close> never takes a NaN branch. This is a fact of the real numbers, not
  of the source's doubles.
\<close>

lemma half_angle: "sin ((x::real) / 2) * sin (x / 2) = (1 - cos x) / 2"
  using cos_double_sin[of "x / 2"] by (simp add: power2_eq_square)

lemma abs_prod_bound: "\<bar>(x::real) * y\<bar> \<le> (x\<^sup>2 + y\<^sup>2) / 2"
proof -
  have "0 \<le> (\<bar>x\<bar> - \<bar>y\<bar>)\<^sup>2" by simp
  then have "2 * (\<bar>x\<bar> * \<bar>y\<bar>) \<le> x\<^sup>2 + y\<^sup>2"
    by (simp add: power2_diff)
  then show ?thesis by (simp add: abs_mult)
qed

lemma haversine_range:
  fixes p1 p2 l :: real
  shows "0 \<le> sin ((p2 - p1) / 2) * sin ((p2 - p1) / 2) + cos p1 * cos p2 * sin (l / 2) * sin (l / 2)"
    and "sin ((p2 - p1) / 2) * sin ((p2 - p1) / 2) + cos p1 * cos p2 * sin (l / 2) * sin (l / 2) \<le> 1"
proof -
  let ?a = "sin ((p2 - p1) / 2) * sin ((p2 - p1) / 2) + cos p1 * cos p2 * sin (l / 2) * sin (l / 2)"
  let ?A = "sin p1 * sin p2 + cos p1 * cos p2 * cos l"
  have "?a = (1 - cos (p2 - p1)) / 2 + cos p1 * cos p2 * ((1 - cos l) / 2)"
    by (simp only: mult.assoc half_angle[of "p2 - p1"] half_angle[of l])
  moreover have "2 * ((1 - cos (p2 - p1)) / 2 + cos p1 * cos p2 * ((1 - cos l) / 2)) = 1 - ?A"
    unfolding cos_diff by (simp add: field_simps)
  ultimately have a: "2 * ?a = 1 - ?A" by (simp only:)
  have "\<bar>cos p1 * cos p2 * cos l\<bar> \<le> \<bar>cos p1 * cos p2\<bar> * 1"
    unfolding abs_mult[of "cos p1 * cos p2" "cos l"]
    by (rule mult_left_mono) simp_all
  moreover have "\<bar>sin p1 * sin p2\<bar> \<le> ((sin p1)\<^sup>2 + (sin p2)\<^sup>2) / 2"
    and "\<bar>cos p1 * cos p2\<bar> \<le> ((cos p1)\<^sup>2 + (cos p2)\<^sup>2) / 2"
    by (rule abs_prod_bound)+
  moreover have "((sin p1)\<^sup>2 + (sin p2)\<^sup>2) / 2 + ((cos p1)\<^sup>2 + (cos p2)\<^sup>2) / 2 = 1"
    unfolding sin_squared_eq by (simp add: field_simps)
  ultimately have "\<bar>?A\<bar> \<le> 1" by linarith
  then have b: "- 1 \<le> ?A" "?A \<le> 1" by (simp_all add: abs_le_iff)
  define x A where "x = ?a" and "A = ?A"
  have "2 * x = 1 - A" "- 1 \<le> A" "A \<le> 1"
    using a b by (simp_all only: x_def A_def)
  then have "0 \<le> x" "x \<le> 1" by linarith+
  then show "0 \<le> ?a" and "?a \<le> 1" by (simp_all only: x_def)
qed

lemma calculateDistance_exact: "\<exists>r. calculateDistance coord1 coord2 = Finite r"
proof -
  have d: "((lat coord2 - lat coord1) * pi) / 180 = (lat coord2 * pi) / 180 - (lat coord1 * pi) / 180"
    by (simp add: field_simps)
  note r = haversine_range[of "(lat coord2 * pi) / 180" "(lat coord1 * pi) / 180"
             "((lon coord2 - lon coord1) * pi) / 180", folded d]
  show ?thesis
    unfolding calculateDistance_def Let_def Math_sqrt_def
    using r by (simp add: not_less[symmetric] del: not_less)
qed

lemma haversine_swap:
  "sin ((((x::real) - y) * pi) / 180 / 2) * sin (((x - y) * pi) / 180 / 2) =
   sin (((y - x) * pi) / 180 / 2) * sin (((y - x) * pi) / 180 / 2)"
proof -
  have "((x - y) * pi) / 180 / 2 = - (((y - x) * pi) / 180 / 2)"
    by (simp add: field_simps)
  then show ?thesis by (simp only: sin_minus)
qed

text \<open>
  C7. In either order \<open>calculateDistance\<close> computes the same value, the comparison \<open>===\<close>
  of the two results holds exactly when that value is not NaN, and
  \<open>calculateDistance(a, a)\<close> is \<open>0\<close>. For the antipodal pair \<open>{lat: 8, lon: 0}\<close>,
  \<open>{lat: -8, lon: 180}\<close> the source's doubles round the term \<open>a\<close> to
  \<open>1.0000000000000002\<close>, \<open>Math.sqrt(1 - a)\<close> is NaN and the source returns NaN in both
  orders: there the comparison fails, for want of a clamp of \<open>a\<close> to \<open>[0, 1]\<close>.
\<close>

theorem calculateDistance_same_value_either_order:
  "calculateDistance a b = calculateDistance b a \<and>
   (strict_equal (calculateDistance a b) (calculateDistance b a) \<longleftrightarrow>
      calculateDistance a b \<noteq> NaN) \<and>
   calculateDistance a a = Finite 0"
proof -
  have sym: "calculateDistance a b = calculateDistance b a"
    unfolding calculateDistance_def Let_def
    by (simp only: haversine_swap[of "lat a" "lat b"] mult.assoc
          haversine_swap[of "lon a" "lon b"] mult.left_commute[of "cos ((lat a * pi) / 180)"])
  have eq: "strict_equal x x \<longleftrightarrow> x \<noteq> NaN" for x
    by (cases x) (simp_all add: strict_equal_def)
  have refl: "calculateDistance a a = Finite 0"
    by (simp add: calculateDistance_def Math_sqrt_def atan2_def)
  from sym eq[of "calculateDistance a b"] refl show ?thesis by simp
qed

section \<open>Route assembler: counts, identities, endpoints\<close>

text \<open>
  C4. For every start, optional end, positive integer \<open>N\<close> and distance \<open>D\<close>,
  \<open>generateRoutes(start, end, N, D)\<close> returns exactly \<open>N\<close> routes, whose \<open>id\<close> fields are
  \<open>0..N-1\<close> in the order of their positions, and every route has \<open>isLoop\<close> true if the end
  is absent and false if it is present.
\<close>

theorem generateRoutes_count_ids_isLoop:
  "0 < N \<Longrightarrow>
     length (fst (generateRoutes s e N D g)) = nat N \<and>
     map id_r (fst (generateRoutes s e N D g)) = map int [0..<nat N] \<and>
     (\<forall>r \<in> set (fst (generateRoutes s e N D g)). isLoop r = (e = None))"
proof -
  let ?rs = "fst (generateRoutes s e N D g)"
  let ?P = "\<lambda>k r. id_r r = int k \<and> isLoop r = (e = None)"
  have len: "length ?rs = nat N"
    by (rule generateRoutes_nth(1)[where Q = "\<lambda>_. True" and P = "\<lambda>_ _. True"]) simp_all
  have nth: "?P k (?rs ! k)" if "k < nat N" for k
    using that
    by (rule generateRoutes_nth(2)[where Q = "\<lambda>_. True" and P = ?P, rotated 2])
       (simp_all add: generateRoute_fields)
  have ids: "map id_r ?rs = map int [0..<nat N]"
    by (rule nth_equalityI) (simp_all add: len nth)
  have loops: "\<forall>r \<in> set ?rs. isLoop r = (e = None)"
    using nth len by (auto simp: in_set_conv_nth)
  from len ids loops show ?thesis by blast
qed

theorem generateRoutes_count_ids_isLoop_witness:
  "(0::int) < 2 \<and>
   length (fst (generateRoutes scenario_start None 2 4 half_draws)) = 2 \<and>
   map id_r (fst (generateRoutes scenario_start None 2 4 half_draws)) = [0, 1]"
  using generateRoutes_count_ids_isLoop[of 2 scenario_start None 4 half_draws]
  by (simp add: upt_rec)

text \<open>
  C10. For every start, optional end, distance and every integer \<open>numRoutes \<le> 0\<close>,
  \<open>generateRoutes\<close> returns the empty array; no draw is made.
\<close>

theorem generateRoutes_nonpositive_empty:
  "numRoutes \<le> 0 \<Longrightarrow> generateRoutes s e numRoutes d g = ([], g)"
  by (simp add: generateRoutes_def)

theorem generateRoutes_nonpositive_empty_witness:
  "(- 1::int) \<le> 0 \<and> generateRoutes scenario_start None (- 1) 5 half_draws = ([], half_draws)"
  using generateRoutes_nonpositive_empty[of "- 1" scenario_start None 5 half_draws]
  by simp

text \<open>
  C2. For every start, every \<open>targetDistanceKm > 0\<close> and every \<open>variationIndex\<close> in
  \<open>{0, 1, 2, ...}\<close>, the loop synthesizer gives \<open>clamp(3 + variationIndex, 3, 5)\<close> waypoints,
  a number in \<open>[3, 5]\<close>; the loop route at position \<open>k\<close> of \<open>generateRoutes\<close> (end absent),
  whose variation index is \<open>k\<close>, has that many waypoints, and the first and the last
  element of its points are both exactly the start.
\<close>

theorem loop_route_waypoint_count_endpoints:
  "0 < d \<Longrightarrow> 0 \<le> v \<Longrightarrow> k < nat N \<Longrightarrow>
     length (fst (generateLoopWaypoints s d v g)) = nat (max 3 (min 5 (3 + v))) \<and>
     3 \<le> length (fst (generateLoopWaypoints s d v g)) \<and>
     length (fst (generateLoopWaypoints s d v g)) \<le> 5 \<and>
     length (waypoints (fst (generateRoutes s None N d g) ! k)) = nat (max 3 (min 5 (3 + int k))) \<and>
     points (fst (generateRoutes s None N d g) ! k) =
       [s] @ waypoints (fst (generateRoutes s None N d g) ! k) @ [s] \<and>
     hd (points (fst (generateRoutes s None N d g) ! k)) = s \<and>
     last (points (fst (generateRoutes s None N d g) ! k)) = s"
proof -
  assume k: "k < nat N"
  let ?r = "fst (generateRoutes s None N d g) ! k"
  let ?P = "\<lambda>k r. length (waypoints r) = nat (max 3 (min 5 (3 + int k))) \<and>
                    points r = [s] @ waypoints r @ [s]"
  have r: "?P k ?r"
    using k
    by (rule generateRoutes_nth(2)[where Q = "\<lambda>_. True" and P = ?P, rotated 2])
       (simp_all add: generateRoute_loop generateLoopWaypoints_length)
  have e: "hd (points ?r) = s \<and> last (points ?r) = s"
    using r by simp
  have l: "length (fst (generateLoopWaypoints s d v g)) = nat (max 3 (min 5 (3 + v)))"
    by (rule generateLoopWaypoints_length)
  have b: "3 \<le> nat (max 3 (min 5 (3 + v))) \<and> nat (max 3 (min 5 (3 + v))) \<le> 5"
    by linarith
  from r e l b show ?thesis by simp
qed

theorem loop_route_waypoint_count_endpoints_witness:
  "(0::real) < 4 \<and> (0::int) \<le> 1 \<and> (1::nat) < nat 2 \<and>
   length (fst (generateLoopWaypoints scenario_start 4 1 half_draws)) = 4 \<and>
   length (waypoints (fst (generateRoutes scenario_start None 2 4 half_draws) ! 1)) = 4 \<and>
   hd (points (fst (generateRoutes scenario_start None 2 4 half_draws) ! 1)) = scenario_start \<and>
   last (points (fst (generateRoutes scenario_start None 2 4 half_draws) ! 1)) = scenario_start"
  using loop_route_waypoint_count_endpoints[of 4 1 1 2 scenario_start half_draws]
  by simp

section \<open>Point-to-point routes\<close>

text \<open>
  Two bounds on \<open>pi\<close>, from the Taylor expansion of the cosine and from \<open>sin x \<le> x\<close>; they
  decide the floor in the documented scenario.
\<close>

lemma cos_17: "cos (17/10 :: real) < 0"
proof -
  obtain t where t: "cos (17/10::real) = (\<Sum>m<4. cos_coeff m * (17/10) ^ m) + (cos (t + 1/2 * real 4 * pi) / fact 4) * (17/10) ^ 4"
    using Maclaurin_cos_expansion2[of "17/10" 4] by auto
  have "cos (t + 1/2 * real 4 * pi) \<le> 1" by simp
  then have "(cos (t + 1/2 * real 4 * pi) / fact 4) * (17/10) ^ 4 \<le> (1 / fact 4) * (17/10) ^ 4"
    by (intro mult_right_mono divide_right_mono) simp_all
  moreover have "(\<Sum>m<4. cos_coeff m * (17/10::real) ^ m) = 1 - (17/10)^2 / 2"
  proof -
    have "{..<4::nat} = {0, 1, 2, 3}" by auto
    then show ?thesis by (simp add: cos_coeff_def)
  qed
  ultimately have "cos (17/10::real) \<le> 1 - (17/10)^2 / 2 + (1 / fact 4) * (17/10) ^ 4"
    using t by linarith
  also have "\<dots> < 0" by (simp add: fact_numeral power2_eq_square power4_eq_xxxx)
  finally show ?thesis .
qed

lemma pi_less_34: "pi < 34/10"
proof (rule ccontr)
  assume "\<not> pi < 34/10"
  then have "17/10 \<le> pi / 2" by simp
  then have "0 \<le> cos (17/10::real)" by (intro cos_ge_zero) simp_all
  with cos_17 show False by simp
qed

lemma pi_ge_3: "3 \<le> pi"
  using sin_x_le_x[of "pi / 6"] by (simp add: sin_30)

lemma calculateDistance_scenario:
  "calculateDistance \<lparr>lat = 0, lon = 0\<rparr> \<lparr>lat = 0, lon = 0.09\<rparr> = Finite (6371 * pi / 2000)"
proof -
  let ?x = "pi / 4000"
  have x: "0 < ?x" "?x < pi / 2" by simp_all
  have s: "0 < sin ?x" by (rule sin_gt_zero) (use x in simp_all)
  have c: "0 < cos ?x" by (rule cos_gt_zero) (use x in simp_all)
  have one: "1 - sin ?x * sin ?x = cos ?x * cos ?x"
    using sin_cos_squared_add3[of ?x] by linarith
  have t: "arctan (sin ?x / cos ?x) = ?x"
    using arctan_tan[of ?x] x by (simp add: tan_def)
  have dl: "((0.09::real) * pi) / 180 / 2 = ?x" by simp
  have nn: "\<not> sin ?x * sin ?x < 0" "\<not> cos ?x * cos ?x < 0"
    by (simp_all add: not_less)
  show ?thesis
    unfolding calculateDistance_def Let_def Math_sqrt_def
    using s c t nn by (simp add: dl one atan2_def)
qed

lemma scenario_count:
  "(case calculateDistance \<lparr>lat = 0, lon = 0\<rparr> \<lparr>lat = 0, lon = 0.09\<rparr> of
      NaN \<Rightarrow> None | Finite dd \<Rightarrow> Some (max 1 \<lfloor>(15 - dd) / 2\<rfloor>)) = Some 2"
proof -
  have "\<lfloor>(15 - 6371 * pi / 2000) / 2\<rfloor> = 2"
  proof (rule floor_unique)
    show "of_int 2 \<le> (15 - 6371 * pi / 2000) / 2" using pi_less_34 by simp
    show "(15 - 6371 * pi / 2000) / 2 < of_int 2 + 1" using pi_ge_3 by simp
  qed
  then show ?thesis unfolding calculateDistance_scenario by simp
qed

text \<open>A count that is NaN: the loop of \<open>generateRandomWaypoints\<close> does not run.\<close>

lemma generateRandomWaypoints_NaN: "generateRandomWaypoints s e None g = ([], g)"
  by (simp add: generateRandomWaypoints_def less_count_def)

text \<open>
  C3. Each point-to-point route of \<open>generateRoutes\<close> has first point exactly the start and
  last point exactly the end. When \<open>calculateDistance(start, end)\<close> is a number, the route
  has \<open>max(1, floor((distanceKm - calculateDistance(start, end)) / 2))\<close> waypoints; when it
  is NaN, so is the count, the loop of the synthesizer does not run, and the route has
  no waypoint. For \<open>start = {lat: 0, lon: 0}\<close>, \<open>end = {lat: 0, lon: 0.09}\<close>,
  \<open>distanceKm = 15\<close> the route has \<open>2\<close> waypoints.
\<close>

theorem point_to_point_route_count_by_distance:
  assumes k: "k < nat N"
  shows "points (fst (generateRoutes s (Some e) N d g) ! k) =
           [s] @ waypoints (fst (generateRoutes s (Some e) N d g) ! k) @ [e] \<and>
         hd (points (fst (generateRoutes s (Some e) N d g) ! k)) = s \<and>
         last (points (fst (generateRoutes s (Some e) N d g) ! k)) = e \<and>
         length (waypoints (fst (generateRoutes s (Some e) N d g) ! k)) =
           (case calculateDistance s e of
              NaN \<Rightarrow> 0
            | Finite dd \<Rightarrow> nat (max 1 \<lfloor>(d - dd) / 2\<rfloor>)) \<and>
         length (waypoints (fst (generateRoutes \<lparr>lat = 0, lon = 0\<rparr>
                    (Some \<lparr>lat = 0, lon = 0.09\<rparr>) N 15 g) ! k)) = 2"
proof -
  have r: "points (fst (generateRoutes s (Some e) N d g) ! k) =
             [s] @ waypoints (fst (generateRoutes s (Some e) N d g) ! k) @ [e] \<and>
           length (waypoints (fst (generateRoutes s (Some e) N d g) ! k)) =
             (case (case calculateDistance s e of
                      NaN \<Rightarrow> None | Finite dd \<Rightarrow> Some (max 1 \<lfloor>(d - dd) / 2\<rfloor>)) of
                None \<Rightarrow> 0 | Some c \<Rightarrow> nat c)" for s e d
    using k
    by (rule generateRoutes_nth(2)[where Q = "\<lambda>_. True" and
          P = "\<lambda>k r. points r = [s] @ waypoints r @ [e] \<and>
                      length (waypoints r) =
                        (case (case calculateDistance s e of
                                 NaN \<Rightarrow> None | Finite dd \<Rightarrow> Some (max 1 \<lfloor>(d - dd) / 2\<rfloor>)) of
                           None \<Rightarrow> 0 | Some c \<Rightarrow> nat c)",
          rotated 2])
       (simp_all add: generateRoute_p2p generateRandomWaypoints_length)
  have e: "hd (points (fst (generateRoutes s (Some e) N d g) ! k)) = s \<and>
           last (points (fst (generateRoutes s (Some e) N d g) ! k)) = e"
    using r[of s e d] by simp
  have n: "length (waypoints (fst (generateRoutes s (Some e) N d g) ! k)) =
           (case calculateDistance s e of
              NaN \<Rightarrow> 0
            | Finite dd \<Rightarrow> nat (max 1 \<lfloor>(d - dd) / 2\<rfloor>))"
    using r[of s e d] by (simp split: number.splits)
  have c: "length (waypoints (fst (generateRoutes \<lparr>lat = 0, lon = 0\<rparr>
                    (Some \<lparr>lat = 0, lon = 0.09\<rparr>) N 15 g) ! k)) = 2"
    using r[of "\<lparr>lat = 0, lon = 0\<rparr>" "\<lparr>lat = 0, lon = 0.09\<rparr>" 15]
    unfolding scenario_count by simp
  from r[of s e d] e n c show ?thesis by simp
qed

theorem point_to_point_route_count_by_distance_witness:
  "(0::nat) < nat 1 \<and>
   hd (points (fst (generateRoutes scenario_start (Some \<lparr>lat = 59.34, lon = 18.07\<rparr>) 1 5
                      half_draws) ! 0)) = scenario_start \<and>
   last (points (fst (generateRoutes scenario_start (Some \<lparr>lat = 59.34, lon = 18.07\<rparr>) 1 5
                      half_draws) ! 0)) = \<lparr>lat = 59.34, lon = 18.07\<rparr> \<and>
   length (waypoints (fst (generateRoutes \<lparr>lat = 0, lon = 0\<rparr>
                      (Some \<lparr>lat = 0, lon = 0.09\<rparr>) 1 15 half_draws) ! 0)) = 2"
  using point_to_point_route_count_by_distance[of 0 1 scenario_start
          "\<lparr>lat = 59.34, lon = 18.07\<rparr>" 5 half_draws]
  by simp

section \<open>Loop synthesizer: the shape of a waypoint\<close>

lemma loopWaypoint_unit_draws:
  "unit_draws g \<Longrightarrow> unit_draws (snd (loopWaypoint s bR la lo pD nW k g))"
  by (simp add: loopWaypoint_def random_def unit_draws_def Let_def)

lemma loopWaypoint_shape:
  assumes "unit_draws g"
  shows "\<exists>\<delta> f. - 0.15 \<le> \<delta> \<and> \<delta> \<le> 0.15 \<and> 0.8 \<le> f \<and> f \<le> 1.2 \<and>
           fst (loopWaypoint s bR la lo pD nW k g) =
             \<lparr>lat = lat s + sin ((real k / real_of_int nW) * (2 * pi) + pD + \<delta>) * (bR * f) * la,
              lon = lon s + cos ((real k / real_of_int nW) * (2 * pi) + pD + \<delta>) * (bR * f) * lo\<rparr>"
proof -
  have r: "0 \<le> g 0" "g 0 < 1" "0 \<le> g 1" "g 1 < 1"
    using assms by (simp_all add: unit_draws_def)
  let ?d = "(g 0 - 0.5) * 0.3" and ?f = "0.8 + g 1 * 0.4"
  have "- 0.15 \<le> ?d \<and> ?d \<le> 0.15 \<and> 0.8 \<le> ?f \<and> ?f \<le> 1.2" using r by simp
  moreover have "fst (loopWaypoint s bR la lo pD nW k g) =
             \<lparr>lat = lat s + sin ((real k / real_of_int nW) * (2 * pi) + pD + ?d) * (bR * ?f) * la,
              lon = lon s + cos ((real k / real_of_int nW) * (2 * pi) + pD + ?d) * (bR * ?f) * lo\<rparr>"
    by (simp add: loopWaypoint_def random_def Let_def mult.assoc)
  ultimately show ?thesis by blast
qed

text \<open>
  C5. For every start that is not at a pole (the cosine of its latitude is not \<open>0\<close>, so
  that \<open>lonPerKm\<close> is a quotient of the reals), every \<open>targetDistanceKm\<close>, \<open>variationIndex\<close>
  and every outcome of the draws (each in \<open>[0, 1)\<close>), the \<open>i\<close>-th loop waypoint is
  \<open>{lat: start.lat + sin(angle) * radius * (1/111),
    lon: start.lon + cos(angle) * radius * (1/(111 * cos(start.lat * pi/180)))}\<close>
  with \<open>angle = (i/numWaypoints) * 2 pi + variationIndex * (2 pi/3) + \<delta>\<close> for some \<open>\<delta>\<close> in
  \<open>[-0.15, 0.15]\<close> and \<open>radius = (targetDistanceKm/(2 pi) * 1.5) * f\<close> for some \<open>f\<close> in
  \<open>[0.8, 1.2]\<close>: the sine goes with the latitude, the cosine with the longitude.
\<close>

theorem generateLoopWaypoints_shape:
  assumes g: "unit_draws g"
    and pole: "cos (lat start * pi / 180) \<noteq> 0"
    and i: "i < length (fst (generateLoopWaypoints start targetDistanceKm variationIndex g))"
  shows "\<exists>\<delta> f. - 0.15 \<le> \<delta> \<and> \<delta> \<le> 0.15 \<and> 0.8 \<le> f \<and> f \<le> 1.2 \<and>
           fst (generateLoopWaypoints start targetDistanceKm variationIndex g) ! i =
             \<lparr>lat = lat start +
                sin ((real i / real_of_int (max 3 (min 5 (3 + variationIndex)))) * (2 * pi) +
                     real_of_int variationIndex * (2 * pi / 3) + \<delta>) *
                  ((targetDistanceKm / (2 * pi) * 1.5) * f) * (1 / 111),
              lon = lon start +
                cos ((real i / real_of_int (max 3 (min 5 (3 + variationIndex)))) * (2 * pi) +
                     real_of_int variationIndex * (2 * pi / 3) + \<delta>) *
                  ((targetDistanceKm / (2 * pi) * 1.5) * f) *
                  (1 / (111 * cos (lat start * pi / 180)))\<rparr>"
proof -
  have i': "i < nat (max 3 (min 5 (3 + variationIndex)))"
    using i by (simp add: generateLoopWaypoints_length)
  have pd: "(real_of_int variationIndex * (2 * pi)) / 3 = real_of_int variationIndex * (2 * pi / 3)"
    by simp
  show ?thesis
    using i'
    apply (rule generateLoopWaypoints_nth(2)[where Q = unit_draws, rotated 2])
    subgoal for k g'
      using loopWaypoint_shape[of g' start "targetDistanceKm / (2 * pi) * 1.5" "1 / 111"
              "1 / (111 * cos (lat start * pi / 180))" "(real_of_int variationIndex * (2 * pi)) / 3"
              "max 3 (min 5 (3 + variationIndex))" k]
            loopWaypoint_unit_draws[of g']
      unfolding pd by simp
    by (rule g)
qed

theorem generateLoopWaypoints_shape_witness:
  "unit_draws half_draws \<and>
   cos (lat scenario_start * pi / 180) \<noteq> 0 \<and>
   (0::nat) < length (fst (generateLoopWaypoints scenario_start 4 0 half_draws)) \<and>
   (\<exists>\<delta> f. - 0.15 \<le> \<delta> \<and> \<delta> \<le> 0.15 \<and> 0.8 \<le> f \<and> f \<le> 1.2 \<and>
           fst (generateLoopWaypoints scenario_start 4 0 half_draws) ! 0 =
             \<lparr>lat = lat scenario_start +
                sin ((real 0 / real_of_int (max 3 (min 5 (3 + 0)))) * (2 * pi) +
                     real_of_int 0 * (2 * pi / 3) + \<delta>) *
                  ((4 / (2 * pi) * 1.5) * f) * (1 / 111),
              lon = lon scenario_start +
                cos ((real 0 / real_of_int (max 3 (min 5 (3 + 0)))) * (2 * pi) +
                     real_of_int 0 * (2 * pi / 3) + \<delta>) *
                  ((4 / (2 * pi) * 1.5) * f) *
                  (1 / (111 * cos (lat scenario_start * pi / 180)))\<rparr>)"
proof -
  have u: "unit_draws half_draws" by (simp add: unit_draws_def half_draws_def)
  have "0 < cos (lat scenario_start * pi / 180)"
    by (rule cos_gt_zero) (simp_all add: scenario_start_def)
  then have p: "cos (lat scenario_start * pi / 180) \<noteq> 0" by simp
  have l: "(0::nat) < length (fst (generateLoopWaypoints scenario_start 4 0 half_draws))"
    by (simp add: generateLoopWaypoints_length)
  from u p l generateLoopWaypoints_shape[OF u p l] show ?thesis by blast
qed

section \<open>Waypoints against the start and the end\<close>

lemma unit_draws_coincident: "unit_draws coincident_draws"
  by (simp add: unit_draws_def coincident_draws_def)

lemma unit_draws_end: "unit_draws end_draws"
  by (simp add: unit_draws_def end_draws_def)

lemma randomWaypoint_coincident:
  "fst (randomWaypoint s e coincident_draws) = s \<and>
   snd (randomWaypoint s e coincident_draws) = coincident_draws"
proof -
  have "(\<lambda>n. coincident_draws (Suc (Suc (Suc (Suc n))))) = coincident_draws"
    by (rule ext) (simp add: coincident_draws_def)
  then show ?thesis
    by (simp add: randomWaypoint_def random_def Let_def coincident_draws_def)
qed

lemma randomWaypoint_end:
  "fst (randomWaypoint s e end_draws) = \<lparr>lat = lat s + 0.0025, lon = lon s + 0.0025\<rparr> \<and>
   snd (randomWaypoint s e end_draws) = end_draws"
proof -
  have "(\<lambda>n. end_draws (Suc (Suc (Suc (Suc n))))) = end_draws"
    by (rule ext) (simp add: end_draws_def)
  then show ?thesis
    by (simp add: randomWaypoint_def random_def Let_def end_draws_def)
qed

lemma generateRoutes_single:
  "fst (generateRoutes s e 1 d g) ! 0 = fst (generateRoute s e d 0 g)"
  by (simp add: generateRoutes_def)

lemma loopWaypoint_zero_radius:
  "fst (loopWaypoint s 0 la lo pD nW k g) = s"
  by (simp add: loopWaypoint_def random_def Let_def)

text \<open>
  A point-to-point route has a first waypoint once \<open>calculateDistance\<close> gives a number, and
  that waypoint is what one iteration of the synthesizer makes of the generator.
\<close>

lemma point_to_point_first_waypoint:
  assumes step: "\<And>g'. Q g' \<Longrightarrow> P (fst (randomWaypoint s e g')) \<and> Q (snd (randomWaypoint s e g'))"
    and g: "Q g"
  shows "\<exists>w. w \<in> set (waypoints (fst (generateRoutes s (Some e) 1 d g) ! 0)) \<and> P w"
proof -
  obtain r where r: "calculateDistance s e = Finite r"
    using calculateDistance_exact by blast
  let ?n = "Some (max 1 \<lfloor>(d - r) / 2\<rfloor>)"
  let ?w = "fst (generateRandomWaypoints s e ?n g)"
  have n: "0 < (case ?n of None \<Rightarrow> 0 | Some c \<Rightarrow> nat c)" by simp
  have len: "0 < length ?w" using n by (simp only: generateRandomWaypoints_length)
  have "P (?w ! 0)"
    using n
    apply (rule generateRandomWaypoints_nth(2)[where Q = Q, rotated 2])
    subgoal for g' using step[of g'] by blast
    by (rule g)
  moreover have "?w ! 0 \<in> set ?w" using len by (rule nth_mem)
  moreover have "waypoints (fst (generateRoutes s (Some e) 1 d g) ! 0) = ?w"
    by (simp add: generateRoutes_single generateRoute_p2p r)
  ultimately show ?thesis by auto
qed

text \<open>
  C9, as stated, fails. In point-to-point mode the draws \<open>0, 0, 1/2, 1/2\<close> put a waypoint
  exactly on the start, and the draws \<open>0, 0, 3/4, 3/4\<close> put one exactly on an end that lies
  \<open>0.0025\<close> degrees from the start on both axes; in loop mode a target distance of \<open>0\<close> puts
  every waypoint on the start.
\<close>

theorem waypoint_coincides_with_start:
  "unit_draws coincident_draws \<and> unit_draws end_draws \<and>
   \<lparr>lat = 1, lon = 1\<rparr> \<in> set (waypoints (fst (generateRoutes \<lparr>lat = 1, lon = 1\<rparr>
        (Some \<lparr>lat = 2, lon = 2\<rparr>) 1 5 coincident_draws) ! 0)) \<and>
   \<lparr>lat = 1.0025, lon = 1.0025\<rparr> \<in> set (waypoints (fst (generateRoutes \<lparr>lat = 1, lon = 1\<rparr>
        (Some \<lparr>lat = 1.0025, lon = 1.0025\<rparr>) 1 5 end_draws) ! 0)) \<and>
   scenario_start \<in> set (waypoints (fst (generateRoutes scenario_start None 1 0 half_draws) ! 0))"
proof -
  let ?s = "\<lparr>lat = 1, lon = 1\<rparr>" and ?e = "\<lparr>lat = 2, lon = 2\<rparr>"
  let ?e' = "\<lparr>lat = 1.0025, lon = 1.0025\<rparr>"
  have "\<exists>w. w \<in> set (waypoints (fst (generateRoutes ?s (Some ?e) 1 5 coincident_draws) ! 0)) \<and>
            w = ?s"
    by (rule point_to_point_first_waypoint[where Q = "\<lambda>g. g = coincident_draws"])
       (simp_all add: randomWaypoint_coincident)
  then have p2p: "?s \<in> set (waypoints (fst (generateRoutes ?s (Some ?e) 1 5 coincident_draws) ! 0))"
    by blast
  have "\<exists>w. w \<in> set (waypoints (fst (generateRoutes ?s (Some ?e') 1 5 end_draws) ! 0)) \<and>
            w = ?e'"
    by (rule point_to_point_first_waypoint[where Q = "\<lambda>g. g = end_draws"])
       (simp_all add: randomWaypoint_end)
  then have p2e: "?e' \<in> set (waypoints (fst (generateRoutes ?s (Some ?e') 1 5 end_draws) ! 0))"
    by blast
  let ?l = "fst (generateLoopWaypoints scenario_start 0 (int 0) half_draws)"
  have ll: "length ?l = 3" by (simp add: generateLoopWaypoints_length)
  have "?l ! 0 = scenario_start"
    by (rule generateLoopWaypoints_nth(2)[where Q = "\<lambda>_. True"
          and P = "\<lambda>k w. w = scenario_start" and k = 0, rotated 2])
       (simp_all add: loopWaypoint_zero_radius)
  then have "scenario_start \<in> set ?l" using ll by (metis nth_mem zero_less_numeral)
  then have loop: "scenario_start \<in>
      set (waypoints (fst (generateRoutes scenario_start None 1 0 half_draws) ! 0))"
    by (simp add: generateRoutes_single generateRoute_loop)
  from p2p p2e loop unit_draws_coincident unit_draws_end show ?thesis by blast
qed

text \<open>
  C9, amended. For every route of \<open>generateRoutes\<close>, the points are the start, then the
  waypoints, then the end (the start again in loop mode): the waypoints are exactly the
  synthesized intermediate points, which lie between the start entry and the end entry of
  the points. A synthesized waypoint may have the value of the start or of the end, as
  the theorem above shows.
\<close>

theorem waypoints_are_interior_points:
  assumes k: "k < nat N"
  shows "points (fst (generateRoutes s e N d g) ! k) =
           [s] @ waypoints (fst (generateRoutes s e N d g) ! k) @
           [case e of None \<Rightarrow> s | Some e' \<Rightarrow> e']"
  using k
  by (rule generateRoutes_nth(2)[where Q = "\<lambda>_. True"
        and P = "\<lambda>k r. points r = [s] @ waypoints r @ [case e of None \<Rightarrow> s | Some e' \<Rightarrow> e']",
        rotated 2])
     (cases e; simp add: generateRoute_p2p generateRoute_loop)+

theorem waypoints_are_interior_points_witness:
  "(0::nat) < nat 1 \<and>
   points (fst (generateRoutes scenario_start None 1 4 half_draws) ! 0) =
     [scenario_start] @ waypoints (fst (generateRoutes scenario_start None 1 4 half_draws) ! 0) @
     [scenario_start] \<and>
   points (fst (generateRoutes scenario_start (Some \<lparr>lat = 59.34, lon = 18.07\<rparr>) 1 4
                  half_draws) ! 0) =
     [scenario_start] @
     waypoints (fst (generateRoutes scenario_start (Some \<lparr>lat = 59.34, lon = 18.07\<rparr>) 1 4
                  half_draws) ! 0) @
     [\<lparr>lat = 59.34, lon = 18.07\<rparr>]"
  using waypoints_are_interior_points[of 0 1 scenario_start None 4 half_draws]
        waypoints_are_interior_points[of 0 1 scenario_start "Some \<lparr>lat = 59.34, lon = 18.07\<rparr>"
          4 half_draws]
  by simp

section \<open>Road-routing adapter: fallback and frame\<close>

lemma getRoutedPaths_loop_eq:
  "getRoutedPaths_loop rt p rs k acc sent =
     (acc @ map (\<lambda>(j, r). routedRoute r (rt j p (points r))) (zip [k..<k + length rs] rs),
      sent @ map (\<lambda>r. (p, points r)) rs)"
proof (induction rs arbitrary: k acc sent)
  case Nil
  then show ?case by simp
next
  case (Cons r rs)
  have "[k..<k + length (r # rs)] = k # [Suc k..<Suc k + length rs]"
    by (subst upt_rec) simp
  then show ?case by (simp only: getRoutedPaths_loop.simps Cons.IH) simp
qed

lemma getRoutedPaths_length:
  "length (fst (getRoutedPaths rt rs mode)) = length rs"
  by (simp add: getRoutedPaths_def getRoutedPaths_loop_eq)

lemma getRoutedPaths_nth:
  "k < length rs \<Longrightarrow>
     fst (getRoutedPaths rt rs mode) ! k =
       routedRoute (rs ! k) (rt k (osrmProfile mode) (points (rs ! k)))"
  by (simp add: getRoutedPaths_def getRoutedPaths_loop_eq)

lemma routedRoute_id: "id_r (routedRoute r outcome) = id_r r"
  by (simp add: routedRoute_def split: fetch_outcome.splits option.splits)

lemma routedRoute_failed: "call_failed outcome \<Longrightarrow> routedRoute r outcome = r"
  by (auto simp: routedRoute_def call_failed_def firstRoute_def
           split: fetch_outcome.splits option.splits list.splits)

text \<open>
  C1. For every input list of routes and every behaviour of the external router,
  \<open>getRoutedPaths\<close> returns as many routes as it was given, in the same order (the \<open>id\<close> at
  each position is the input's); every route whose call failed (a thrown exception, a
  status other than \<open>Ok\<close>, no first route) is in the output unchanged, so with the duration
  and the steps it had, and a route of \<open>generateRoutes\<close> has neither; the result at a
  position depends on the router through the outcome of that position's call only.
\<close>

theorem getRoutedPaths_fallback_isolated:
  "length (fst (getRoutedPaths rt rs mode)) = length rs \<and>
   (\<forall>k < length rs.
      id_r (fst (getRoutedPaths rt rs mode) ! k) = id_r (rs ! k) \<and>
      (call_failed (rt k (osrmProfile mode) (points (rs ! k))) \<longrightarrow>
         fst (getRoutedPaths rt rs mode) ! k = rs ! k \<and>
         duration (fst (getRoutedPaths rt rs mode) ! k) = duration (rs ! k) \<and>
         steps (fst (getRoutedPaths rt rs mode) ! k) = steps (rs ! k)) \<and>
      (\<forall>rt'. rt' k (osrmProfile mode) (points (rs ! k)) =
               rt k (osrmProfile mode) (points (rs ! k)) \<longrightarrow>
             fst (getRoutedPaths rt' rs mode) ! k = fst (getRoutedPaths rt rs mode) ! k)) \<and>
   (\<forall>k < nat N.
      call_failed (rt k (osrmProfile mode)
                     (points (fst (generateRoutes s e N d g) ! k))) \<longrightarrow>
        fst (getRoutedPaths rt (fst (generateRoutes s e N d g)) mode) ! k =
          fst (generateRoutes s e N d g) ! k \<and>
        duration (fst (getRoutedPaths rt (fst (generateRoutes s e N d g)) mode) ! k) = None \<and>
        steps (fst (getRoutedPaths rt (fst (generateRoutes s e N d g)) mode) ! k) = None)"
proof -
  have a: "length (fst (getRoutedPaths rt rs mode)) = length rs"
    by (rule getRoutedPaths_length)
  have b: "\<forall>k < length rs.
      id_r (fst (getRoutedPaths rt rs mode) ! k) = id_r (rs ! k) \<and>
      (call_failed (rt k (osrmProfile mode) (points (rs ! k))) \<longrightarrow>
         fst (getRoutedPaths rt rs mode) ! k = rs ! k \<and>
         duration (fst (getRoutedPaths rt rs mode) ! k) = duration (rs ! k) \<and>
         steps (fst (getRoutedPaths rt rs mode) ! k) = steps (rs ! k)) \<and>
      (\<forall>rt'. rt' k (osrmProfile mode) (points (rs ! k)) =
               rt k (osrmProfile mode) (points (rs ! k)) \<longrightarrow>
             fst (getRoutedPaths rt' rs mode) ! k = fst (getRoutedPaths rt rs mode) ! k)"
    by (simp add: getRoutedPaths_nth routedRoute_id routedRoute_failed)
  let ?gs = "fst (generateRoutes s e N d g)"
  have len: "length ?gs = nat N"
    by (rule generateRoutes_nth(1)[where Q = "\<lambda>_. True" and P = "\<lambda>_ _. True"]) simp_all
  have none: "duration (?gs ! k) = None \<and> steps (?gs ! k) = None" if "k < nat N" for k
    using that
    by (rule generateRoutes_nth(2)[where Q = "\<lambda>_. True"
          and P = "\<lambda>k r. duration r = None \<and> steps r = None", rotated 2])
       (simp_all add: generateRoute_fields)
  have c: "\<forall>k < nat N.
      call_failed (rt k (osrmProfile mode) (points (?gs ! k))) \<longrightarrow>
        fst (getRoutedPaths rt ?gs mode) ! k = ?gs ! k \<and>
        duration (fst (getRoutedPaths rt ?gs mode) ! k) = None \<and>
        steps (fst (getRoutedPaths rt ?gs mode) ! k) = None"
    by (simp add: getRoutedPaths_nth len routedRoute_failed none)
  from a b c show ?thesis by blast
qed

theorem getRoutedPaths_fallback_isolated_witness:
  "call_failed (flaky_router 1 (osrmProfile ''walk'') (points (straight_route 1))) \<and>
   length (fst (getRoutedPaths flaky_router
                  [straight_route 0, straight_route 1, straight_route 2] ''walk'')) = 3 \<and>
   fst (getRoutedPaths flaky_router
          [straight_route 0, straight_route 1, straight_route 2] ''walk'') ! 1 = straight_route 1 \<and>
   id_r (fst (getRoutedPaths flaky_router
          [straight_route 0, straight_route 1, straight_route 2] ''walk'') ! 2) = 2"
proof -
  let ?rs = "[straight_route 0, straight_route 1, straight_route 2]"
  note t = getRoutedPaths_fallback_isolated[of flaky_router ?rs "''walk''"
             0 scenario_start None 4 half_draws]
  have f: "call_failed (flaky_router 1 (osrmProfile ''walk'') (points (straight_route 1)))"
    by (simp add: call_failed_def flaky_router_def)
  then have f': "call_failed (flaky_router 1 (osrmProfile ''walk'') (points (?rs ! 1)))"
    by simp
  have k1: "(1::nat) < length ?rs" and k2: "(2::nat) < length ?rs" by simp_all
  have a: "length (fst (getRoutedPaths flaky_router ?rs ''walk'')) = 3"
    using t[THEN conjunct1] by simp
  have b: "fst (getRoutedPaths flaky_router ?rs ''walk'') ! 1 = straight_route 1"
    using t[THEN conjunct2, THEN conjunct1, rule_format, OF k1, THEN conjunct2, THEN conjunct1,
            rule_format, OF f', THEN conjunct1]
    by simp
  have c: "id_r (fst (getRoutedPaths flaky_router ?rs ''walk'') ! 2) = 2"
    using t[THEN conjunct2, THEN conjunct1, rule_format, OF k2, THEN conjunct1]
    by (simp add: straight_route_def)
  from f a b c show ?thesis by blast
qed




section \<open>Request handler: validation\<close>

text \<open>
  A request that passes the check is answered with status \<open>200\<close>: as many routes as were
  asked for, and one request to the router for each.
\<close>

lemma handle_route_accepts:
  assumes "checked_start (req_start req) = Some start"
  shows "\<exists>resp g' sent.
           handle_route rt req g = (Status200 resp, g', sent) \<and>
           length (resp_routes resp) =
             nat (case req_numRoutes req of Some n \<Rightarrow> n | None \<Rightarrow> 3) \<and>
           length sent = length (resp_routes resp)"
proof -
  let ?n = "case req_numRoutes req of Some n \<Rightarrow> n | None \<Rightarrow> 3"
  let ?d = "case req_distanceKm req of Some d \<Rightarrow> d | None \<Rightarrow> 5"
  let ?m = "case req_mode req of Some m \<Rightarrow> m | None \<Rightarrow> ''walk''"
  let ?rs = "fst (generateRoutes start (req_end req) ?n ?d g)"
  have len: "length ?rs = nat ?n"
    by (rule generateRoutes_nth(1)[where Q = "\<lambda>_. True" and P = "\<lambda>_ _. True"]) simp_all
  have sent: "length (snd (getRoutedPaths rt ?rs ?m)) = length ?rs"
    by (simp add: getRoutedPaths_def getRoutedPaths_loop_eq)
  have "handle_route rt req g =
          (Status200 \<lparr>resp_routes = fst (getRoutedPaths rt ?rs ?m), resp_mode = ?m\<rparr>,
           snd (generateRoutes start (req_end req) ?n ?d g),
           snd (getRoutedPaths rt ?rs ?m))"
    using assms by (simp add: handle_route_def Let_def split: prod.splits)
  then show ?thesis
    using len sent by (simp add: getRoutedPaths_length)
qed

text \<open>
  C8. For every request whose start is missing, or whose \<open>start.lat\<close> or \<open>start.lon\<close> is
  falsy, the handler answers with status \<open>400\<close> and a message; it makes no draw and sends
  nothing to the router.
\<close>

theorem handle_route_rejects_missing_start:
  assumes "case req_start req of None \<Rightarrow> True
           | Some c \<Rightarrow> falsy (req_lat c) \<or> falsy (req_lon c)"
  shows "handle_route rt req g = (Status400 ''Start location with lat/lon required'', g, [])"
  using assms
  by (auto simp: handle_route_def checked_start_def falsy_def Let_def split: option.splits)

theorem handle_route_rejects_missing_start_witness:
  "falsy (req_lat \<lparr>req_lat = Some 0, req_lon = Some 18.06\<rparr>) \<and>
   handle_route flaky_router equator_request half_draws =
     (Status400 ''Start location with lat/lon required'', half_draws, [])"
  using handle_route_rejects_missing_start[of equator_request flaky_router half_draws]
  by (simp add: equator_request_def falsy_def)

end
